theory Spec2Isabelle
  imports Main
begin

section \<open>The delete-request compiler (\<^verbatim>\<open>mongo/db/ops/parsed_delete.cpp\<close>)\<close>

text \<open>
  A shallow embedding of \<^verbatim>\<open>ParsedDelete\<close>: its constructor, \<^verbatim>\<open>parseRequest\<close>,
  \<^verbatim>\<open>parseQueryToCQ\<close>, \<^verbatim>\<open>hasParsedQuery\<close>, \<^verbatim>\<open>releaseParsedQuery\<close> and
  \<^verbatim>\<open>isEligibleForArbitraryTimeseriesDelete\<close>. The functions the file calls but does not
  define (collation resolution, the simple-\<^verbatim>\<open>_id\<close> test, the predicate splitter, the
  canonicalizer, the serializer of match expressions, the feature flag) are parameters,
  collected in the record \<open>Externals\<close>. Every \<^verbatim>\<open>invariant\<close>, \<^verbatim>\<open>dassert\<close>,
  \<^verbatim>\<open>tassert\<close> and \<^verbatim>\<open>uassert\<close> of the source is a branch of the model that
  ends in a \<open>Failure\<close>.
\<close>

subsection \<open>Documents and match expressions\<close>

datatype BSONValue =
    BSONNull
  | BSONBool bool
  | BSONInt int
  | BSONString string
  | BSONObject "(string \<times> BSONValue) list"
  | BSONArray "BSONValue list"

type_synonym BSONObj = "(string \<times> BSONValue) list"

definition isEmpty :: "BSONObj \<Rightarrow> bool" where
  "isEmpty obj = (case obj of [] \<Rightarrow> True | _ # _ \<Rightarrow> False)"

datatype MatchExpression =
    AndMatchExpression "MatchExpression list"
  | NotMatchExpression MatchExpression
  | EqualityMatchExpression string BSONValue
  | OtherMatchExpression BSONObj

text \<open>
  Modelled from the spec: the closed-bucket guard (the predicate splitter
  \<^verbatim>\<open>timeseries::getMatchExprsForWrites\<close> that adds it is not part of this file). It is
  the "bucket not closed for deletion" predicate; a bucket-level predicate includes it
  when it is the guard itself or has it as a top-level conjunct.
\<close>

definition closedBucketFilter :: MatchExpression where
  "closedBucketFilter =
     NotMatchExpression (EqualityMatchExpression ''control.closed'' (BSONBool True))"


subsection \<open>The request, the collection and the canonicalizer's input\<close>

type_synonym NamespaceString = string
type_synonym LegacyRuntimeConstants = BSONObj

text \<open>The fields of \<^verbatim>\<open>DeleteRequest\<close> that the file reads, named by their getters.\<close>

record DeleteRequest =
  getNsString :: NamespaceString
  getQuery :: BSONObj
  getSort :: BSONObj
  getCollation :: BSONObj
  getHint :: BSONObj
  getMulti :: bool
  getReturnDeleted :: bool
  getProj :: BSONObj
  getLegacyRuntimeConstants :: "LegacyRuntimeConstants option"
  getLet :: "BSONObj option"
  getIsExplain :: bool

record TimeseriesOptions =
  timeField :: string
  metaField :: "string option"
  bucketMaxSpanSeconds :: "int option"

datatype CollatorInterface = CollatorInterface BSONObj

text \<open>A \<^verbatim>\<open>CollectionPtr\<close> may be null: the model has \<open>Collection option\<close>.\<close>

record Collection =
  getTimeseriesOptions :: "TimeseriesOptions option"
  getDefaultCollator :: "CollatorInterface option"

text \<open>
  \<^verbatim>\<open>FindCommandRequest\<close>: the fields the file sets, and the projection, which it leaves
  at its default. \<open>makeFindCommandRequest\<close> is the constructor from a namespace.
\<close>

record FindCommandRequest =
  findNamespace :: NamespaceString
  findFilter :: BSONObj
  findProjection :: BSONObj
  findSort :: BSONObj
  findCollation :: BSONObj
  findHint :: BSONObj
  findLimit :: "int option"
  findLegacyRuntimeConstants :: "LegacyRuntimeConstants option"
  findLet :: "BSONObj option"

definition makeFindCommandRequest :: "NamespaceString \<Rightarrow> FindCommandRequest" where
  "makeFindCommandRequest nss =
     \<lparr> findNamespace = nss, findFilter = [], findProjection = [], findSort = [],
       findCollation = [], findHint = [], findLimit = None,
       findLegacyRuntimeConstants = None, findLet = None \<rparr>"

text \<open>
  \<^verbatim>\<open>ExpressionContext\<close>, with the arguments it is constructed from in
  \<^verbatim>\<open>parseRequest\<close> (lines 83-87), the field set in line 88, and the state of its
  expression counters.
\<close>

record ExpressionContext =
  ctxCollator :: "CollatorInterface option"
  ctxNs :: NamespaceString
  ctxRuntimeConstants :: "LegacyRuntimeConstants option"
  ctxLetParameters :: "BSONObj option"
  collationMatchesDefault :: bool
  expressionCountersStarted :: bool

definition make_ExpressionContext ::
  "CollatorInterface option \<Rightarrow> NamespaceString \<Rightarrow> LegacyRuntimeConstants option \<Rightarrow>
   BSONObj option \<Rightarrow> ExpressionContext" where
  "make_ExpressionContext collator nss runtimeConstants letParameters =
     \<lparr> ctxCollator = collator, ctxNs = nss, ctxRuntimeConstants = runtimeConstants,
       ctxLetParameters = letParameters, collationMatchesDefault = False,
       expressionCountersStarted = False \<rparr>"

text \<open>
  Modelled from the spec: \<^verbatim>\<open>startExpressionCounters\<close> and \<^verbatim>\<open>stopExpressionCounters\<close>
  (\<^verbatim>\<open>ExpressionContext\<close> is not part of this file) start and stop the
  expression-counting instrumentation of the evaluation context, here a flag.
\<close>

definition startExpressionCounters :: "ExpressionContext \<Rightarrow> ExpressionContext" where
  "startExpressionCounters ctx = ctx\<lparr>expressionCountersStarted := True\<rparr>"

definition stopExpressionCounters :: "ExpressionContext \<Rightarrow> ExpressionContext" where
  "stopExpressionCounters ctx = ctx\<lparr>expressionCountersStarted := False\<rparr>"

record TimeseriesWritesQueryExprs =
  bucketExpr :: "MatchExpression option"
  residualExpr :: "MatchExpression option"


subsection \<open>Results and failures\<close>

datatype ErrorCodes = InvalidOptions | OtherErrorCode int

datatype Status = OK | Status ErrorCodes string

datatype 'a StatusWith = StatusWithValue 'a | StatusWithError ErrorCodes string

fun getStatus :: "'a StatusWith \<Rightarrow> Status" where
  "getStatus (StatusWithValue v) = OK"
| "getStatus (StatusWithError code reason) = Status code reason"

text \<open>
  The ways a member function does not return: \<^verbatim>\<open>invariant\<close> (and \<^verbatim>\<open>dassert\<close> in a
  debug build) terminates the process; \<^verbatim>\<open>tassert\<close> is the tripwire assertion, with
  its numeric code; \<^verbatim>\<open>uassert\<close> throws a user assertion carrying an error code; and
  dereferencing a null pointer or an empty optional has no defined behaviour.
\<close>

datatype Failure =
    InvariantFailure string
  | TripwireAssertion int string
  | UserAssertion ErrorCodes string
  | NullDereference

subsection \<open>The functions the file calls\<close>

text \<open>
  The calls to code outside the file, in the order they are made, are logged in the
  ghost field \<open>calls\<close> of the compiler's state.
\<close>

datatype ExternalCall =
    CallResolveCollator BSONObj
  | CallStartExpressionCounters
  | CallGetMatchExprsForWrites BSONObj
  | CallStopExpressionCounters
  | CallCanonicalize FindCommandRequest bool "ExpressionContext option"

text \<open>
  The collaborators, with the interfaces the spec gives them: \<open>kDebugBuild\<close> says
  whether \<^verbatim>\<open>dassert\<close> is compiled in; \<open>gTimeseriesDeletesSupport_isEnabled\<close> is the
  value of the feature flag under the current feature compatibility version; the
  collation resolver returns a collator and whether the collation matches the
  collection's default; the predicate splitter is a pure function to the pair of a
  bucket-level and a residual predicate (either may be null in the type); the
  canonicalizer returns a compiled query of an opaque type \<open>'cq\<close>, or an error status.
\<close>

record 'cq Externals =
  kDebugBuild :: bool
  gTimeseriesDeletesSupport_isEnabled :: bool
  createTimeseriesWritesQueryExprsIfNecessary ::
    "bool \<Rightarrow> Collection option \<Rightarrow> TimeseriesWritesQueryExprs option"
  resolveCollator :: "BSONObj \<Rightarrow> Collection option \<Rightarrow> CollatorInterface option \<times> bool"
  isSimpleIdQuery :: "BSONObj \<Rightarrow> bool"
  getMatchExprsForWrites ::
    "ExpressionContext \<Rightarrow> TimeseriesOptions \<Rightarrow> BSONObj \<Rightarrow> TimeseriesWritesQueryExprs"
  serialize :: "MatchExpression \<Rightarrow> BSONObj"
  canonicalize ::
    "FindCommandRequest \<Rightarrow> bool \<Rightarrow> ExpressionContext option \<Rightarrow> NamespaceString \<Rightarrow>
     'cq StatusWith"

subsection \<open>\<^verbatim>\<open>ParsedDelete\<close>\<close>

record 'cq ParsedDelete =
  request :: DeleteRequest
  collection :: "Collection option"
  timeseriesDeleteQueryExprs :: "TimeseriesWritesQueryExprs option"
  expCtx :: "ExpressionContext option"
  canonicalQuery :: "'cq option"
  calls :: "ExternalCall list"

text \<open>The constructor (lines 57-69).\<close>

definition ParsedDelete ::
  "'cq Externals \<Rightarrow> DeleteRequest \<Rightarrow> Collection option \<Rightarrow> bool \<Rightarrow> 'cq ParsedDelete" where
  "ParsedDelete ext req coll isTimeseriesDelete =
     \<lparr> request = req,
       collection = coll,
       timeseriesDeleteQueryExprs =
         (if isTimeseriesDelete
          then createTimeseriesWritesQueryExprsIfNecessary ext
                 (gTimeseriesDeletesSupport_isEnabled ext) coll
          else None),
       expCtx = None,
       canonicalQuery = None,
       calls = [] \<rparr>"

text \<open>
  \<^verbatim>\<open>parseQueryToCQ\<close> (lines 99-165). The result is what the call does (a \<open>Failure\<close>,
  or the \<open>Status\<close> it returns) and the state it leaves. \<open>filterStep\<close> is lines
  105-123, \<open>findCommand2\<close> lines 124-126, the limit and its \<^verbatim>\<open>uassert\<close> lines 134-143,
  \<open>findCommand4\<close> and \<open>findCommand5\<close> lines 147-150, and the rest lines 152-164. In
  line 110 the collection and its time-series options are dereferenced, and in line 116
  the evaluation context: where one of them is null the model ends in
  \<open>NullDereference\<close>.
\<close>

definition parseQueryToCQ ::
  "'cq Externals \<Rightarrow> 'cq ParsedDelete \<Rightarrow> (Failure + Status) \<times> 'cq ParsedDelete" where
  "parseQueryToCQ ext pd =
    (let req = request pd in
     if kDebugBuild ext \<and> canonicalQuery pd \<noteq> None
     then (Inl (InvariantFailure ''!_canonicalQuery.get()''), pd)
     else
       let findCommand0 = makeFindCommandRequest (getNsString req);
           filterStep =
             (case timeseriesDeleteQueryExprs pd of
                Some _ \<Rightarrow>
                  (case (expCtx pd, collection pd) of
                     (Some ctx, Some coll) \<Rightarrow>
                       (case getTimeseriesOptions coll of
                          Some tsOptions \<Rightarrow>
                            let queryExprs = getMatchExprsForWrites ext ctx tsOptions (getQuery req);
                                pd1 = pd\<lparr>timeseriesDeleteQueryExprs := Some queryExprs,
                                         expCtx := Some (stopExpressionCounters ctx),
                                         calls := calls pd @
                                           [CallGetMatchExprsForWrites (getQuery req),
                                            CallStopExpressionCounters]\<rparr>
                            in (case bucketExpr queryExprs of
                                  None \<Rightarrow>
                                    (Inl (TripwireAssertion 7542400
                                            ''Bucket-level filter must not be null''), pd1)
                                | Some bucket \<Rightarrow>
                                    (Inr (findCommand0\<lparr>findFilter := serialize ext bucket\<rparr>), pd1))
                        | None \<Rightarrow> (Inl NullDereference, pd))
                   | _ \<Rightarrow> (Inl NullDereference, pd))
              | None \<Rightarrow> (Inr (findCommand0\<lparr>findFilter := getQuery req\<rparr>), pd))
       in
       case filterStep of
         (Inl failure, pd1) \<Rightarrow> (Inl failure, pd1)
       | (Inr findCommand1, pd1) \<Rightarrow>
           let findCommand2 = findCommand1\<lparr>findSort := getSort req,
                                            findCollation := getCollation req,
                                            findHint := getHint req\<rparr>
           in
           (case (if \<not> getMulti req \<and> \<not> isEmpty (getSort req)
                 then (if timeseriesDeleteQueryExprs pd1 \<noteq> None
                       then Inl (UserAssertion InvalidOptions
                         ''Cannot perform a findAndModify with a query and sort on a time-series collection.'')
                       else Inr (findCommand2\<lparr>findLimit := Some 1\<rparr>))
                 else Inr findCommand2) of
             Inl failure \<Rightarrow> (Inl failure, pd1)
           | Inr findCommand3 \<Rightarrow>
             let findCommand4 =
                   (case getLegacyRuntimeConstants req of
                      Some runtimeConstants \<Rightarrow>
                        findCommand3\<lparr>findLegacyRuntimeConstants := Some runtimeConstants\<rparr>
                    | None \<Rightarrow> findCommand3);
                 findCommand5 =
                   (case getLet req of
                      Some letParams \<Rightarrow> findCommand4\<lparr>findLet := Some letParams\<rparr>
                    | None \<Rightarrow> findCommand4);
                 statusWithCQ =
                   canonicalize ext findCommand5 (getIsExplain req) (expCtx pd1) (getNsString req);
                 pd2 = pd1\<lparr>calls := calls pd1 @
                             [CallCanonicalize findCommand5 (getIsExplain req) (expCtx pd1)]\<rparr>
             in
             (case statusWithCQ of
                StatusWithValue cq \<Rightarrow> (Inr (getStatus statusWithCQ), pd2\<lparr>canonicalQuery := Some cq\<rparr>)
              | StatusWithError code reason \<Rightarrow> (Inr (getStatus statusWithCQ), pd2))))"

text \<open>
  The evaluation context of \<^verbatim>\<open>parseRequest\<close> (lines 81-88): the collator comes from
  \<^verbatim>\<open>resolveCollator\<close>, the rest from the request.
\<close>

definition newExpCtx ::
  "'cq Externals \<Rightarrow> DeleteRequest \<Rightarrow> Collection option \<Rightarrow> ExpressionContext" where
  "newExpCtx ext req coll =
     (let (collatorToUse, collationMatchesDefault') =
            resolveCollator ext (getCollation req) coll
      in (make_ExpressionContext collatorToUse (getNsString req)
            (getLegacyRuntimeConstants req) (getLet req))
         \<lparr>collationMatchesDefault := collationMatchesDefault'\<rparr>)"

text \<open>\<^verbatim>\<open>parseRequest\<close> (lines 71-97).\<close>

definition parseRequest ::
  "'cq Externals \<Rightarrow> 'cq ParsedDelete \<Rightarrow> (Failure + Status) \<times> 'cq ParsedDelete" where
  "parseRequest ext pd =
    (let req = request pd in
     if kDebugBuild ext \<and> canonicalQuery pd \<noteq> None
     then (Inl (InvariantFailure ''!_canonicalQuery.get()''), pd)
     else if getReturnDeleted req \<and> getMulti req
     then (Inl (InvariantFailure ''!(_request->getReturnDeleted() && _request->getMulti())''), pd)
     else if \<not> (isEmpty (getProj req) \<or> getReturnDeleted req)
     then (Inl (InvariantFailure
                  ''_request->getProj().isEmpty() || _request->getReturnDeleted()''), pd)
     else
       let ctx = newExpCtx ext req (collection pd);
           pd1 = pd\<lparr>expCtx := Some ctx,
                    calls := calls pd @ [CallResolveCollator (getCollation req)]\<rparr>
       in
       if isSimpleIdQuery ext (getQuery req) \<and> timeseriesDeleteQueryExprs pd1 = None
       then (Inr OK, pd1)
       else
         parseQueryToCQ ext
           (pd1\<lparr>expCtx := Some (startExpressionCounters ctx),
                calls := calls pd1 @ [CallStartExpressionCounters]\<rparr>))"

text \<open>\<^verbatim>\<open>getRequest\<close>, \<^verbatim>\<open>hasParsedQuery\<close> and \<^verbatim>\<open>releaseParsedQuery\<close> (lines 167-182).\<close>

definition getRequest :: "'cq ParsedDelete \<Rightarrow> DeleteRequest" where
  "getRequest pd = request pd"

definition hasParsedQuery :: "'cq ParsedDelete \<Rightarrow> bool" where
  "hasParsedQuery pd = (canonicalQuery pd \<noteq> None)"

definition releaseParsedQuery :: "'cq ParsedDelete \<Rightarrow> Failure + ('cq \<times> 'cq ParsedDelete)" where
  "releaseParsedQuery pd =
     (case canonicalQuery pd of
        None \<Rightarrow> Inl (InvariantFailure ''_canonicalQuery.get() != nullptr'')
      | Some cq \<Rightarrow> Inr (cq, pd\<lparr>canonicalQuery := None\<rparr>))"

text \<open>
  Modelled from the spec: \<^verbatim>\<open>getResidualExpr\<close> (declared in the header
  \<^verbatim>\<open>parsed_delete.h\<close>, which is not part of this file) is the residual predicate that
  the split produced, null when there is none or when the delete is not
  time-partitioned.
\<close>

definition getResidualExpr :: "'cq ParsedDelete \<Rightarrow> MatchExpression option" where
  "getResidualExpr pd =
     (case timeseriesDeleteQueryExprs pd of
        None \<Rightarrow> None
      | Some queryExprs \<Rightarrow> residualExpr queryExprs)"

text \<open>\<^verbatim>\<open>isEligibleForArbitraryTimeseriesDelete\<close> (lines 184-186).\<close>

definition isEligibleForArbitraryTimeseriesDelete :: "'cq ParsedDelete \<Rightarrow> bool" where
  "isEligibleForArbitraryTimeseriesDelete pd =
     (timeseriesDeleteQueryExprs pd \<noteq> None \<and>
      (getResidualExpr pd \<noteq> None \<or> \<not> getMulti (request pd)))"

subsection \<open>Concrete collaborators and requests\<close>

text \<open>
  One instance of the collaborators, and a few requests and collections, at which the
  theorems below are evaluated. Here the canonicalizer returns its input as the compiled
  query, the splitter returns the guard as bucket-level predicate and the whole query as
  residual predicate, and the expressions object exists when the feature is enabled and
  the collection has time-series options.
\<close>

definition exampleExternals :: "FindCommandRequest Externals" where
  "exampleExternals =
     \<lparr> kDebugBuild = True,
       gTimeseriesDeletesSupport_isEnabled = True,
       createTimeseriesWritesQueryExprsIfNecessary =
         (\<lambda>enabled coll.
            case coll of
              None \<Rightarrow> None
            | Some c \<Rightarrow>
                if enabled \<and> getTimeseriesOptions c \<noteq> None
                then Some \<lparr>bucketExpr = None, residualExpr = None\<rparr>
                else None),
       resolveCollator =
         (\<lambda>collation coll.
            (case coll of None \<Rightarrow> None | Some c \<Rightarrow> getDefaultCollator c, True)),
       isSimpleIdQuery =
         (\<lambda>q. case q of [(k, BSONInt i)] \<Rightarrow> k = ''_id'' | _ \<Rightarrow> False),
       getMatchExprsForWrites =
         (\<lambda>ctx tsOptions q.
            \<lparr>bucketExpr = Some (AndMatchExpression [closedBucketFilter]),
             residualExpr = Some (OtherMatchExpression q)\<rparr>),
       serialize =
         (\<lambda>e. case e of
                 OtherMatchExpression q \<Rightarrow> q
               | _ \<Rightarrow> [(''control.closed'', BSONObject [(''$ne'', BSONBool True)])]),
       canonicalize = (\<lambda>findCommand explain ctx nss. StatusWithValue findCommand) \<rparr>"

text \<open>The same with the feature flag off: no expressions object is ever created.\<close>

definition featureOffExternals :: "FindCommandRequest Externals" where
  "featureOffExternals = exampleExternals\<lparr>gTimeseriesDeletesSupport_isEnabled := False\<rparr>"

definition exampleRequest :: DeleteRequest where
  "exampleRequest =
     \<lparr> getNsString = ''test.coll'',
       getQuery = [(''x'', BSONInt 1)],
       getSort = [],
       getCollation = [],
       getHint = [],
       getMulti = True,
       getReturnDeleted = False,
       getProj = [],
       getLegacyRuntimeConstants = None,
       getLet = None,
       getIsExplain = False \<rparr>"

definition sortedSingleRequest :: DeleteRequest where
  "sortedSingleRequest = exampleRequest\<lparr>getSort := [(''x'', BSONInt 1)], getMulti := False\<rparr>"

definition idRequest :: DeleteRequest where
  "idRequest = exampleRequest\<lparr>getQuery := [(''_id'', BSONInt 7)]\<rparr>"

definition plainCollection :: Collection where
  "plainCollection = \<lparr>getTimeseriesOptions = None, getDefaultCollator = None\<rparr>"

definition exampleTimeseriesOptions :: TimeseriesOptions where
  "exampleTimeseriesOptions =
     \<lparr>timeField = ''t'', metaField = Some ''m'', bucketMaxSpanSeconds = Some 3600\<rparr>"

definition timeseriesCollection :: Collection where
  "timeseriesCollection =
     \<lparr>getTimeseriesOptions = Some exampleTimeseriesOptions, getDefaultCollator = None\<rparr>"

text \<open>The same with a splitter that returns no bucket-level predicate at all.\<close>

definition nullBucketExternals :: "FindCommandRequest Externals" where
  "nullBucketExternals =
     exampleExternals\<lparr>getMatchExprsForWrites :=
       (\<lambda>ctx tsOptions q. \<lparr>bucketExpr = None, residualExpr = None\<rparr>)\<rparr>"

text \<open>
  What \<open>exampleExternals\<close> canonicalizes for \<open>exampleRequest\<close> on the time-series
  collection, and the evaluation context it is given.
\<close>

definition exampleBucketFindCommand :: FindCommandRequest where
  "exampleBucketFindCommand =
     \<lparr> findNamespace = ''test.coll'',
       findFilter = [(''control.closed'', BSONObject [(''$ne'', BSONBool True)])],
       findProjection = [], findSort = [], findCollation = [], findHint = [],
       findLimit = None, findLegacyRuntimeConstants = None, findLet = None \<rparr>"

definition exampleStoppedContext :: ExpressionContext where
  "exampleStoppedContext =
     \<lparr> ctxCollator = None, ctxNs = ''test.coll'', ctxRuntimeConstants = None,
       ctxLetParameters = None, collationMatchesDefault = True,
       expressionCountersStarted = False \<rparr>"

text \<open>The inputs of the canonicalizer in a log of calls, in order.\<close>

fun canonicalizerInputs :: "ExternalCall list \<Rightarrow> FindCommandRequest list" where
  "canonicalizerInputs [] = []"
| "canonicalizerInputs (CallCanonicalize findCommand explain ctx # cs) =
     findCommand # canonicalizerInputs cs"
| "canonicalizerInputs (c # cs) = canonicalizerInputs cs"

section \<open>Properties\<close>

lemmas model_defs = parseRequest_def parseQueryToCQ_def ParsedDelete_def newExpCtx_def
  make_ExpressionContext_def makeFindCommandRequest_def startExpressionCounters_def
  stopExpressionCounters_def Let_def

lemmas example_defs = exampleExternals_def featureOffExternals_def
  nullBucketExternals_def exampleRequest_def sortedSingleRequest_def idRequest_def
  plainCollection_def exampleTimeseriesOptions_def timeseriesCollection_def
  exampleBucketFindCommand_def exampleStoppedContext_def isEmpty_def

lemma newExpCtx_not_started: "\<not> expressionCountersStarted (newExpCtx ext req coll)"
  by (simp add: newExpCtx_def make_ExpressionContext_def split: prod.splits)

subsection \<open>The limit passed to the canonicalizer\<close>

text \<open>
  Claim C1. Whenever \<^verbatim>\<open>parseRequest\<close> on a freshly constructed \<^verbatim>\<open>ParsedDelete\<close>
  returns \<open>OK\<close> and a canonical query is stored, the canonicalizer was called exactly
  once, the stored query is its result, and the limit of its input is 1 if and only if
  the request is not multi and has a non-empty sort; otherwise, in particular for every
  multi request, the limit is unset.
\<close>

theorem limit_iff_single_sorted:
  assumes "parseRequest ext (ParsedDelete ext req coll isTimeseriesDelete) = (Inr OK, pd')"
    and "hasParsedQuery pd'"
  shows "\<exists>findCommand cq.
           canonicalizerInputs (calls pd') = [findCommand] \<and>
           canonicalize ext findCommand (getIsExplain req) (expCtx pd') (getNsString req)
             = StatusWithValue cq \<and>
           canonicalQuery pd' = Some cq \<and>
           (findLimit findCommand = Some 1) = (\<not> getMulti req \<and> \<not> isEmpty (getSort req)) \<and>
           (getMulti req \<longrightarrow> findLimit findCommand = None) \<and>
           findLimit findCommand =
             (if \<not> getMulti req \<and> \<not> isEmpty (getSort req) then Some 1 else None)"
  using assms
  by (auto simp: model_defs hasParsedQuery_def
      split: if_splits option.splits prod.splits sum.splits StatusWith.splits)

theorem limit_iff_single_sorted_witness:
  "fst (parseRequest exampleExternals
          (ParsedDelete exampleExternals sortedSingleRequest (Some plainCollection) False))
     = Inr OK \<and>
   hasParsedQuery (snd (parseRequest exampleExternals
          (ParsedDelete exampleExternals sortedSingleRequest (Some plainCollection) False))) \<and>
   (\<exists>findCommand.
      canonicalizerInputs (calls (snd (parseRequest exampleExternals
          (ParsedDelete exampleExternals sortedSingleRequest (Some plainCollection) False))))
        = [findCommand] \<and>
      findLimit findCommand = Some 1)"
proof -
  let ?pd0 = "ParsedDelete exampleExternals sortedSingleRequest (Some plainCollection) False"
  have h1: "parseRequest exampleExternals ?pd0 = (Inr OK, snd (parseRequest exampleExternals ?pd0))"
    by (simp add: model_defs example_defs)
  have h2: "hasParsedQuery (snd (parseRequest exampleExternals ?pd0))"
    by (simp add: model_defs example_defs hasParsedQuery_def)
  have h3: "\<not> getMulti sortedSingleRequest \<and> \<not> isEmpty (getSort sortedSingleRequest)"
    by (simp add: example_defs)
  from h1 have "fst (parseRequest exampleExternals ?pd0) = Inr OK"
    by (simp add: prod_eq_iff)
  with h2 h3 limit_iff_single_sorted [OF h1 h2] show ?thesis
    by auto
qed

subsection \<open>A sorted single delete on a time-series collection\<close>

text \<open>
  Claim C2. For every request with \<open>multi = false\<close> and a non-empty sort on a
  time-partitioned delete, \<^verbatim>\<open>parseRequest\<close> on a freshly constructed compiler throws
  the user assertion \<open>InvalidOptions\<close> (not an invariant failure and not the tripwire
  assertion), the canonicalizer is not called and no canonical query is stored. The
  request is one that passes the check of line 79 (the requests that do not are those
  of claim C7; the check of line 75 passes since \<open>multi\<close> is false), and the
  collaborators keep their contracts: an expressions object exists only for a
  collection with time-series options, and the bucket-level predicate of the split is
  not null.
\<close>

theorem sorted_single_timeseries_rejected:
  assumes "\<not> getMulti req" and "\<not> isEmpty (getSort req)"
    and "isEmpty (getProj req) \<or> getReturnDeleted req"
    and "timeseriesDeleteQueryExprs (ParsedDelete ext req (Some c) isTimeseriesDelete) \<noteq> None"
    and "getTimeseriesOptions c = Some tsOptions"
    and "bucketExpr (getMatchExprsForWrites ext
           (startExpressionCounters (newExpCtx ext req (Some c))) tsOptions (getQuery req)) \<noteq> None"
  shows "\<exists>pd'. parseRequest ext (ParsedDelete ext req (Some c) isTimeseriesDelete) =
           (Inl (UserAssertion InvalidOptions
              ''Cannot perform a findAndModify with a query and sort on a time-series collection.''),
            pd') \<and>
          \<not> hasParsedQuery pd' \<and>
          calls pd' =
            [CallResolveCollator (getCollation req), CallStartExpressionCounters,
             CallGetMatchExprsForWrites (getQuery req), CallStopExpressionCounters]"
  using assms
  by (auto simp: model_defs hasParsedQuery_def
      split: if_splits option.splits prod.splits sum.splits StatusWith.splits)

theorem sorted_single_timeseries_rejected_witness:
  "\<not> getMulti sortedSingleRequest \<and> \<not> isEmpty (getSort sortedSingleRequest) \<and>
   (\<exists>pd'. parseRequest exampleExternals
            (ParsedDelete exampleExternals sortedSingleRequest (Some timeseriesCollection) True) =
           (Inl (UserAssertion InvalidOptions
              ''Cannot perform a findAndModify with a query and sort on a time-series collection.''),
            pd') \<and>
          \<not> hasParsedQuery pd' \<and>
          calls pd' =
            [CallResolveCollator (getCollation sortedSingleRequest), CallStartExpressionCounters,
             CallGetMatchExprsForWrites (getQuery sortedSingleRequest),
             CallStopExpressionCounters])"
proof -
  have h1: "\<not> getMulti sortedSingleRequest"
    by (simp add: example_defs)
  have h2: "\<not> isEmpty (getSort sortedSingleRequest)"
    by (simp add: example_defs)
  have h3: "isEmpty (getProj sortedSingleRequest) \<or> getReturnDeleted sortedSingleRequest"
    by (simp add: example_defs)
  have h4: "timeseriesDeleteQueryExprs
     (ParsedDelete exampleExternals sortedSingleRequest (Some timeseriesCollection) True) \<noteq> None"
    by (simp add: example_defs ParsedDelete_def)
  have h5: "getTimeseriesOptions timeseriesCollection = Some exampleTimeseriesOptions"
    by (simp add: timeseriesCollection_def)
  have h6: "bucketExpr (getMatchExprsForWrites exampleExternals
           (startExpressionCounters (newExpCtx exampleExternals sortedSingleRequest
              (Some timeseriesCollection)))
           exampleTimeseriesOptions (getQuery sortedSingleRequest)) \<noteq> None"
    by (simp add: exampleExternals_def)
  show ?thesis
    using h1 h2 sorted_single_timeseries_rejected [OF h1 h2 h3 h4 h5 h6] by simp
qed

subsection \<open>The fast path for a simple \<^verbatim>\<open>_id\<close> query\<close>

text \<open>
  Claim C3. For every request whose predicate is a simple equality on \<^verbatim>\<open>_id\<close>, on a
  compiler that is not time-partitioned and holds no canonical query (a freshly
  constructed one in particular), \<^verbatim>\<open>parseRequest\<close> returns \<open>OK\<close>; the only call it
  makes is the collation resolution, so the canonicalizer is not invoked and the
  expression counters are not started; and \<^verbatim>\<open>hasParsedQuery\<close> stays false. The
  request is one that passes the checks of lines 75 and 79: the requests that do not
  are those of claim C7.
\<close>

theorem simple_id_fast_path:
  assumes "isSimpleIdQuery ext (getQuery (request pd))"
    and "timeseriesDeleteQueryExprs pd = None"
    and "\<not> hasParsedQuery pd"
    and "\<not> (getReturnDeleted (request pd) \<and> getMulti (request pd))"
    and "isEmpty (getProj (request pd)) \<or> getReturnDeleted (request pd)"
  shows "parseRequest ext pd =
           (Inr OK, pd\<lparr>expCtx := Some (newExpCtx ext (request pd) (collection pd)),
                       calls := calls pd @ [CallResolveCollator (getCollation (request pd))]\<rparr>) \<and>
         \<not> hasParsedQuery (snd (parseRequest ext pd)) \<and>
         \<not> expressionCountersStarted (newExpCtx ext (request pd) (collection pd))"
  using assms
  by (auto simp: parseRequest_def Let_def hasParsedQuery_def newExpCtx_not_started)

theorem simple_id_fast_path_witness:
  "isSimpleIdQuery exampleExternals
     (getQuery (request (ParsedDelete exampleExternals idRequest (Some plainCollection) False))) \<and>
   fst (parseRequest exampleExternals
          (ParsedDelete exampleExternals idRequest (Some plainCollection) False)) = Inr OK \<and>
   calls (snd (parseRequest exampleExternals
          (ParsedDelete exampleExternals idRequest (Some plainCollection) False)))
     = [CallResolveCollator []] \<and>
   \<not> hasParsedQuery (snd (parseRequest exampleExternals
          (ParsedDelete exampleExternals idRequest (Some plainCollection) False)))"
proof -
  let ?pd0 = "ParsedDelete exampleExternals idRequest (Some plainCollection) False"
  have h1: "isSimpleIdQuery exampleExternals (getQuery (request ?pd0))"
    by (simp add: example_defs ParsedDelete_def)
  have h2: "timeseriesDeleteQueryExprs ?pd0 = None"
    by (simp add: ParsedDelete_def)
  have h3: "\<not> hasParsedQuery ?pd0"
    by (simp add: ParsedDelete_def hasParsedQuery_def)
  have h4: "\<not> (getReturnDeleted (request ?pd0) \<and> getMulti (request ?pd0))"
    by (simp add: example_defs ParsedDelete_def)
  have h5: "isEmpty (getProj (request ?pd0)) \<or> getReturnDeleted (request ?pd0)"
    by (simp add: example_defs ParsedDelete_def)
  have c: "calls ?pd0 = []" "getCollation (request ?pd0) = []"
    by (simp_all add: example_defs ParsedDelete_def)
  note fast = simple_id_fast_path [OF h1 h2 h3 h4 h5]
  from fast have eq: "parseRequest exampleExternals ?pd0 =
      (Inr OK, ?pd0\<lparr>expCtx := Some (newExpCtx exampleExternals (request ?pd0) (collection ?pd0)),
                    calls := calls ?pd0 @ [CallResolveCollator (getCollation (request ?pd0))]\<rparr>)"
    by (rule conjunct1)
  from fast have nq: "\<not> hasParsedQuery (snd (parseRequest exampleExternals ?pd0))"
    by blast
  have "fst (parseRequest exampleExternals ?pd0) = Inr OK"
    by (simp add: eq)
  moreover have "calls (snd (parseRequest exampleExternals ?pd0)) = [CallResolveCollator []]"
    by (simp add: eq c)
  ultimately show ?thesis
    using h1 nq by blast
qed

subsection \<open>The bucket-level predicate\<close>



subsection \<open>The filter of a time-partitioned delete\<close>

text \<open>
  Claim C5. For every time-partitioned delete, from a freshly constructed compiler,
  whose compilation reaches the canonicalizer: the filter of the canonicalizer's input
  is the serialized bucket-level predicate that the split of the request's query
  returned; the calls made are, in this order, collation resolution, start of the
  expression counters, the split, stop of the expression counters, and the
  canonicalizer; and the evaluation context given to the canonicalizer has its
  expression counters stopped.
\<close>

theorem timeseries_filter_is_bucket_expr:
  assumes "parseRequest ext (ParsedDelete ext req coll isTimeseriesDelete) = (res, pd')"
    and "timeseriesDeleteQueryExprs (ParsedDelete ext req coll isTimeseriesDelete) \<noteq> None"
    and "CallCanonicalize findCommand explain ctx \<in> set (calls pd')"
  shows "\<exists>c tsOptions bucket ctx'.
           coll = Some c \<and> getTimeseriesOptions c = Some tsOptions \<and>
           bucketExpr (getMatchExprsForWrites ext
             (startExpressionCounters (newExpCtx ext req coll)) tsOptions (getQuery req))
             = Some bucket \<and>
           findFilter findCommand = serialize ext bucket \<and>
           calls pd' =
             [CallResolveCollator (getCollation req), CallStartExpressionCounters,
              CallGetMatchExprsForWrites (getQuery req), CallStopExpressionCounters,
              CallCanonicalize findCommand explain ctx] \<and>
           ctx = Some ctx' \<and> \<not> expressionCountersStarted ctx'"
  using assms
  by (auto simp: model_defs
      split: if_splits option.splits prod.splits sum.splits StatusWith.splits)

theorem timeseries_filter_is_bucket_expr_witness:
  "CallCanonicalize exampleBucketFindCommand False (Some exampleStoppedContext)
     \<in> set (calls (snd (parseRequest exampleExternals
          (ParsedDelete exampleExternals exampleRequest (Some timeseriesCollection) True)))) \<and>
   findFilter exampleBucketFindCommand
     = serialize exampleExternals (AndMatchExpression [closedBucketFilter]) \<and>
   calls (snd (parseRequest exampleExternals
          (ParsedDelete exampleExternals exampleRequest (Some timeseriesCollection) True))) =
     [CallResolveCollator (getCollation exampleRequest), CallStartExpressionCounters,
      CallGetMatchExprsForWrites (getQuery exampleRequest), CallStopExpressionCounters,
      CallCanonicalize exampleBucketFindCommand False (Some exampleStoppedContext)]"
proof -
  let ?pd0 = "ParsedDelete exampleExternals exampleRequest (Some timeseriesCollection) True"
  have h1: "parseRequest exampleExternals ?pd0 =
              (fst (parseRequest exampleExternals ?pd0),
               snd (parseRequest exampleExternals ?pd0))"
    by simp
  have h2: "timeseriesDeleteQueryExprs ?pd0 \<noteq> None"
    by (simp add: example_defs ParsedDelete_def)
  have h3: "CallCanonicalize exampleBucketFindCommand False (Some exampleStoppedContext)
              \<in> set (calls (snd (parseRequest exampleExternals ?pd0)))"
    by (simp add: model_defs example_defs)
  have b: "bucketExpr (getMatchExprsForWrites exampleExternals
             (startExpressionCounters (newExpCtx exampleExternals exampleRequest
                (Some timeseriesCollection)))
             tsOptions (getQuery exampleRequest))
           = Some (AndMatchExpression [closedBucketFilter])" for tsOptions
    by (simp add: exampleExternals_def)
  from timeseries_filter_is_bucket_expr [OF h1 h2 h3] h3 b show ?thesis
    by auto
qed

subsection \<open>Eligibility for an arbitrary-order time-series delete\<close>

text \<open>
  Claim C6. After \<^verbatim>\<open>parseRequest\<close> on a freshly constructed compiler, whatever its
  outcome, \<^verbatim>\<open>isEligibleForArbitraryTimeseriesDelete\<close> is true exactly when the delete
  is time-partitioned (the expressions object exists, which is decided at construction)
  and either the expressions object holds a residual predicate or the request is not
  multi. When \<^verbatim>\<open>parseRequest\<close> returned, the expressions object of a time-partitioned
  delete is the result of the split of the request's query.
\<close>

theorem eligible_iff_timeseries_and_residual_or_single:
  assumes "parseRequest ext (ParsedDelete ext req coll isTimeseriesDelete) = (res, pd')"
  shows "isEligibleForArbitraryTimeseriesDelete pd' =
           (timeseriesDeleteQueryExprs pd' \<noteq> None \<and>
            ((\<exists>queryExprs residual. timeseriesDeleteQueryExprs pd' = Some queryExprs \<and>
                residualExpr queryExprs = Some residual) \<or>
             \<not> getMulti req)) \<and>
         (timeseriesDeleteQueryExprs pd' \<noteq> None) =
           (isTimeseriesDelete \<and>
            createTimeseriesWritesQueryExprsIfNecessary ext
              (gTimeseriesDeletesSupport_isEnabled ext) coll \<noteq> None) \<and>
         (\<forall>status. res = Inr status \<longrightarrow> timeseriesDeleteQueryExprs pd' \<noteq> None \<longrightarrow>
            (\<exists>c tsOptions. coll = Some c \<and> getTimeseriesOptions c = Some tsOptions \<and>
               timeseriesDeleteQueryExprs pd' =
                 Some (getMatchExprsForWrites ext
                   (startExpressionCounters (newExpCtx ext req coll)) tsOptions (getQuery req))))"
  using assms
  by (auto simp: model_defs isEligibleForArbitraryTimeseriesDelete_def getResidualExpr_def
      split: if_splits option.splits prod.splits sum.splits StatusWith.splits)

theorem eligible_iff_timeseries_and_residual_or_single_witness:
  "getMulti exampleRequest \<and>
   isEligibleForArbitraryTimeseriesDelete (snd (parseRequest exampleExternals
     (ParsedDelete exampleExternals exampleRequest (Some timeseriesCollection) True))) \<and>
   \<not> isEligibleForArbitraryTimeseriesDelete (snd (parseRequest exampleExternals
     (ParsedDelete exampleExternals exampleRequest (Some plainCollection) True)))"
proof -
  let ?ts = "ParsedDelete exampleExternals exampleRequest (Some timeseriesCollection) True"
  let ?plain = "ParsedDelete exampleExternals exampleRequest (Some plainCollection) True"
  have h1: "parseRequest exampleExternals ?ts =
              (fst (parseRequest exampleExternals ?ts), snd (parseRequest exampleExternals ?ts))"
    by simp
  have h2: "parseRequest exampleExternals ?plain =
              (fst (parseRequest exampleExternals ?plain),
               snd (parseRequest exampleExternals ?plain))"
    by simp
  have r: "timeseriesDeleteQueryExprs (snd (parseRequest exampleExternals ?ts)) =
             Some \<lparr>bucketExpr = Some (AndMatchExpression [closedBucketFilter]),
                   residualExpr = Some (OtherMatchExpression [(''x'', BSONInt 1)])\<rparr>"
    by (simp add: model_defs example_defs)
  have n: "createTimeseriesWritesQueryExprsIfNecessary exampleExternals
             (gTimeseriesDeletesSupport_isEnabled exampleExternals) (Some plainCollection) = None"
    by (simp add: example_defs)
  have m: "getMulti exampleRequest"
    by (simp add: example_defs)
  from eligible_iff_timeseries_and_residual_or_single [OF h1] r
  have "isEligibleForArbitraryTimeseriesDelete (snd (parseRequest exampleExternals ?ts))"
    by simp
  moreover from eligible_iff_timeseries_and_residual_or_single [OF h2] n
  have "\<not> isEligibleForArbitraryTimeseriesDelete (snd (parseRequest exampleExternals ?plain))"
    by simp
  ultimately show ?thesis
    using m by blast
qed

subsection \<open>The checks on the request\<close>

text \<open>
  Claim C7. For every request with \<open>returnDeleted\<close> and \<open>multi\<close> both set, or with a
  non-empty projection and no \<open>returnDeleted\<close>, \<^verbatim>\<open>parseRequest\<close> ends in an invariant
  failure, in whatever state it is called; the state is left as it was, so that no
  collation was resolved and no work on the predicate was done.
\<close>

theorem invalid_request_invariant_failure:
  assumes "(getReturnDeleted (request pd) \<and> getMulti (request pd)) \<or>
           (\<not> isEmpty (getProj (request pd)) \<and> \<not> getReturnDeleted (request pd))"
  shows "\<exists>expr. parseRequest ext pd = (Inl (InvariantFailure expr), pd)"
  using assms by (auto simp: parseRequest_def Let_def)

theorem invalid_request_invariant_failure_witness:
  "getReturnDeleted (idRequest\<lparr>getReturnDeleted := True\<rparr>) \<and>
   getMulti (idRequest\<lparr>getReturnDeleted := True\<rparr>) \<and>
   (\<exists>expr. parseRequest exampleExternals
      (ParsedDelete exampleExternals (idRequest\<lparr>getReturnDeleted := True\<rparr>)
         (Some plainCollection) False) =
      (Inl (InvariantFailure expr),
       ParsedDelete exampleExternals (idRequest\<lparr>getReturnDeleted := True\<rparr>)
         (Some plainCollection) False)) \<and>
   calls (ParsedDelete exampleExternals (idRequest\<lparr>getReturnDeleted := True\<rparr>)
         (Some plainCollection) False) = []"
proof -
  let ?req = "idRequest\<lparr>getReturnDeleted := True\<rparr>"
  let ?pd0 = "ParsedDelete exampleExternals ?req (Some plainCollection) False"
  have h: "getReturnDeleted ?req \<and> getMulti ?req"
    by (simp add: example_defs)
  then have "(getReturnDeleted (request ?pd0) \<and> getMulti (request ?pd0)) \<or>
           (\<not> isEmpty (getProj (request ?pd0)) \<and> \<not> getReturnDeleted (request ?pd0))"
    by (simp add: ParsedDelete_def)
  from invalid_request_invariant_failure [OF this, of exampleExternals] h show ?thesis
    by (simp add: ParsedDelete_def)
qed

subsection \<open>Releasing the canonical query\<close>

text \<open>
  Claim C8. When a canonical query is held, \<^verbatim>\<open>releaseParsedQuery\<close> returns it and
  leaves the compiler holding none, so that \<^verbatim>\<open>hasParsedQuery\<close> is false afterwards and
  a second \<^verbatim>\<open>releaseParsedQuery\<close> ends in an invariant failure; when none is held,
  \<^verbatim>\<open>releaseParsedQuery\<close> ends in an invariant failure.
\<close>

theorem release_transfers_query:
  "(hasParsedQuery pd \<longrightarrow>
      (\<exists>cq pd'. releaseParsedQuery pd = Inr (cq, pd') \<and> canonicalQuery pd = Some cq \<and>
         \<not> hasParsedQuery pd' \<and>
         (\<exists>expr. releaseParsedQuery pd' = Inl (InvariantFailure expr)))) \<and>
   (\<not> hasParsedQuery pd \<longrightarrow> (\<exists>expr. releaseParsedQuery pd = Inl (InvariantFailure expr)))"
  by (auto simp: hasParsedQuery_def releaseParsedQuery_def)

theorem release_transfers_query_witness:
  "hasParsedQuery (snd (parseRequest exampleExternals
     (ParsedDelete exampleExternals exampleRequest (Some plainCollection) False))) \<and>
   (\<exists>cq pd'. releaseParsedQuery (snd (parseRequest exampleExternals
        (ParsedDelete exampleExternals exampleRequest (Some plainCollection) False)))
        = Inr (cq, pd') \<and>
      \<not> hasParsedQuery pd' \<and>
      (\<exists>expr. releaseParsedQuery pd' = Inl (InvariantFailure expr))) \<and>
   \<not> hasParsedQuery
     ((ParsedDelete exampleExternals exampleRequest (Some plainCollection) False)
        :: FindCommandRequest ParsedDelete) \<and>
   (\<exists>expr. releaseParsedQuery
      ((ParsedDelete exampleExternals exampleRequest (Some plainCollection) False)
         :: FindCommandRequest ParsedDelete) = Inl (InvariantFailure expr))"
proof -
  let ?pd0 = "(ParsedDelete exampleExternals exampleRequest (Some plainCollection) False)
                :: FindCommandRequest ParsedDelete"
  have h1: "hasParsedQuery (snd (parseRequest exampleExternals ?pd0))"
    by (simp add: model_defs example_defs hasParsedQuery_def)
  have h2: "\<not> hasParsedQuery ?pd0"
    by (simp add: ParsedDelete_def hasParsedQuery_def)
  from h1 h2 release_transfers_query [of "snd (parseRequest exampleExternals ?pd0)"]
    release_transfers_query [of ?pd0]
  show ?thesis
    by blast
qed

subsection \<open>A time-series delete without an expressions object\<close>

text \<open>
  Claim C9. When the compiler is constructed with \<open>isTimeseriesDelete\<close> set but
  \<^verbatim>\<open>createTimeseriesWritesQueryExprsIfNecessary\<close> returns null for the feature flag and
  the collection, the delete is not treated as time-partitioned: after
  \<^verbatim>\<open>parseRequest\<close> there is still no expressions object, the splitter was not called,
  every input of the canonicalizer has the request's own query as filter,
  \<^verbatim>\<open>isEligibleForArbitraryTimeseriesDelete\<close> is false before and after, and for a
  request that passes the checks of lines 75 and 79 the fast path is taken when the
  query is a simple \<^verbatim>\<open>_id\<close> query, and otherwise the canonicalizer is called with the
  request's query as filter.
\<close>

theorem no_query_exprs_not_time_partitioned:
  assumes "createTimeseriesWritesQueryExprsIfNecessary ext
             (gTimeseriesDeletesSupport_isEnabled ext) coll = None"
    and "parseRequest ext (ParsedDelete ext req coll True) = (res, pd')"
  shows "timeseriesDeleteQueryExprs pd' = None \<and>
         \<not> isEligibleForArbitraryTimeseriesDelete (ParsedDelete ext req coll True) \<and>
         \<not> isEligibleForArbitraryTimeseriesDelete pd' \<and>
         (\<forall>q. CallGetMatchExprsForWrites q \<notin> set (calls pd')) \<and>
         (\<forall>findCommand \<in> set (canonicalizerInputs (calls pd')).
            findFilter findCommand = getQuery req) \<and>
         (\<not> (getReturnDeleted req \<and> getMulti req) \<and>
          (isEmpty (getProj req) \<or> getReturnDeleted req) \<longrightarrow>
            (if isSimpleIdQuery ext (getQuery req)
             then res = Inr OK \<and> calls pd' = [CallResolveCollator (getCollation req)] \<and>
                  \<not> hasParsedQuery pd'
             else \<exists>findCommand.
                    calls pd' =
                      [CallResolveCollator (getCollation req), CallStartExpressionCounters,
                       CallCanonicalize findCommand (getIsExplain req) (expCtx pd')] \<and>
                    findFilter findCommand = getQuery req))"
  using assms
  by (auto simp: model_defs isEligibleForArbitraryTimeseriesDelete_def hasParsedQuery_def
      split: if_splits option.splits prod.splits sum.splits StatusWith.splits)

theorem no_query_exprs_not_time_partitioned_witness:
  "createTimeseriesWritesQueryExprsIfNecessary featureOffExternals
     (gTimeseriesDeletesSupport_isEnabled featureOffExternals) (Some timeseriesCollection) = None \<and>
   isSimpleIdQuery featureOffExternals (getQuery idRequest) \<and>
   fst (parseRequest featureOffExternals
     (ParsedDelete featureOffExternals idRequest (Some timeseriesCollection) True)) = Inr OK \<and>
   calls (snd (parseRequest featureOffExternals
     (ParsedDelete featureOffExternals idRequest (Some timeseriesCollection) True)))
     = [CallResolveCollator (getCollation idRequest)] \<and>
   \<not> isEligibleForArbitraryTimeseriesDelete (snd (parseRequest featureOffExternals
     (ParsedDelete featureOffExternals idRequest (Some timeseriesCollection) True)))"
proof -
  let ?pd0 = "ParsedDelete featureOffExternals idRequest (Some timeseriesCollection) True"
  have h1: "createTimeseriesWritesQueryExprsIfNecessary featureOffExternals
     (gTimeseriesDeletesSupport_isEnabled featureOffExternals) (Some timeseriesCollection) = None"
    by (simp add: example_defs)
  have h2: "parseRequest featureOffExternals ?pd0 =
              (fst (parseRequest featureOffExternals ?pd0),
               snd (parseRequest featureOffExternals ?pd0))"
    by simp
  have v: "\<not> (getReturnDeleted idRequest \<and> getMulti idRequest) \<and>
           (isEmpty (getProj idRequest) \<or> getReturnDeleted idRequest)"
    by (simp add: example_defs)
  have i: "isSimpleIdQuery featureOffExternals (getQuery idRequest)"
    by (simp add: example_defs)
  from no_query_exprs_not_time_partitioned [OF h1 h2] h1 v i show ?thesis
    by simp
qed

subsection \<open>The projection\<close>

text \<open>
  Replacing the projection of the request changes nothing in what \<^verbatim>\<open>parseQueryToCQ\<close>
  does, and nothing in what \<^verbatim>\<open>parseRequest\<close> does when \<open>returnDeleted\<close> is set (so
  that the check of line 79 passes whatever the projection).
\<close>

lemma parseQueryToCQ_proj:
  "parseQueryToCQ ext (pd\<lparr>request := (request pd)\<lparr>getProj := proj\<rparr>\<rparr>) =
     (fst (parseQueryToCQ ext pd),
      (snd (parseQueryToCQ ext pd))\<lparr>request := (request pd)\<lparr>getProj := proj\<rparr>\<rparr>)"
proof (cases "kDebugBuild ext \<and> canonicalQuery pd \<noteq> None")
  case True
  then show ?thesis
    by (simp add: parseQueryToCQ_def)
next
  case False
  then show ?thesis
    by (cases "getLegacyRuntimeConstants (request pd)"; cases "getLet (request pd)";
        cases "getMulti (request pd)"; cases "isEmpty (getSort (request pd))";
        cases "timeseriesDeleteQueryExprs pd")
       (simp_all add: parseQueryToCQ_def Let_def split: option.split StatusWith.split)
qed

lemma parseRequest_proj:
  assumes "getReturnDeleted (request pd)"
  shows "parseRequest ext (pd\<lparr>request := (request pd)\<lparr>getProj := proj\<rparr>\<rparr>) =
     (fst (parseRequest ext pd),
      (snd (parseRequest ext pd))\<lparr>request := (request pd)\<lparr>getProj := proj\<rparr>\<rparr>)"
proof -
  let ?ctx = "startExpressionCounters (newExpCtx ext (request pd) (collection pd))"
  let ?calls = "calls pd @ [CallResolveCollator (getCollation (request pd)),
                            CallStartExpressionCounters]"
  let ?pd1 = "pd\<lparr>expCtx := Some ?ctx, calls := ?calls\<rparr>"
  have ctx: "newExpCtx ext ((request pd)\<lparr>getProj := proj\<rparr>) (collection pd) =
             newExpCtx ext (request pd) (collection pd)"
    by (simp add: newExpCtx_def)
  have eq: "pd\<lparr>request := (request pd)\<lparr>getProj := proj\<rparr>, expCtx := Some ?ctx, calls := ?calls\<rparr>
            = ?pd1\<lparr>request := (request ?pd1)\<lparr>getProj := proj\<rparr>\<rparr>"
    by (cases pd) simp
  have step: "parseQueryToCQ ext
       (pd\<lparr>request := (request pd)\<lparr>getProj := proj\<rparr>, expCtx := Some ?ctx, calls := ?calls\<rparr>) =
     (fst (parseQueryToCQ ext ?pd1),
      (snd (parseQueryToCQ ext ?pd1))\<lparr>request := (request pd)\<lparr>getProj := proj\<rparr>\<rparr>)"
    apply (subst eq)
    apply (subst parseQueryToCQ_proj)
    apply simp
    done
  show ?thesis
    using assms by (auto simp: parseRequest_def Let_def ctx step)
qed

text \<open>
  Claim C10. Every input that \<^verbatim>\<open>parseRequest\<close>, on a freshly constructed compiler,
  gives to the canonicalizer has its projection at the default (empty) and is made of
  the namespace, a filter, the sort, the collation, the hint, the limit of claim C1 and
  the runtime constants and \<^verbatim>\<open>let\<close> parameters of the request, and of nothing else;
  and for a request with \<open>returnDeleted\<close>, replacing the projection by any other leaves
  the outcome and the state, the request apart, the same: the same canonical query is
  stored and the same calls are made.
\<close>

theorem canonicalizer_input_without_projection:
  assumes "parseRequest ext (ParsedDelete ext req coll isTimeseriesDelete) = (res, pd')"
  shows "(\<forall>findCommand \<in> set (canonicalizerInputs (calls pd')).
            findProjection findCommand = [] \<and>
            (\<exists>filter'. findCommand =
               \<lparr> findNamespace = getNsString req, findFilter = filter', findProjection = [],
                 findSort = getSort req, findCollation = getCollation req,
                 findHint = getHint req,
                 findLimit = (if \<not> getMulti req \<and> \<not> isEmpty (getSort req)
                              then Some 1 else None),
                 findLegacyRuntimeConstants = getLegacyRuntimeConstants req,
                 findLet = getLet req \<rparr>)) \<and>
         (getReturnDeleted req \<longrightarrow>
            (\<forall>proj. parseRequest ext
                      (ParsedDelete ext (req\<lparr>getProj := proj\<rparr>) coll isTimeseriesDelete) =
                    (res, pd'\<lparr>request := req\<lparr>getProj := proj\<rparr>\<rparr>)))"
proof -
  let ?pd0 = "ParsedDelete ext req coll isTimeseriesDelete"
  have inputs: "\<forall>findCommand \<in> set (canonicalizerInputs (calls pd')).
            findProjection findCommand = [] \<and>
            (\<exists>filter'. findCommand =
               \<lparr> findNamespace = getNsString req, findFilter = filter', findProjection = [],
                 findSort = getSort req, findCollation = getCollation req,
                 findHint = getHint req,
                 findLimit = (if \<not> getMulti req \<and> \<not> isEmpty (getSort req)
                              then Some 1 else None),
                 findLegacyRuntimeConstants = getLegacyRuntimeConstants req,
                 findLet = getLet req \<rparr>)"
    using assms
    by (auto simp: model_defs
        split: if_splits option.splits prod.splits sum.splits StatusWith.splits)
  have same: "parseRequest ext
                (ParsedDelete ext (req\<lparr>getProj := proj\<rparr>) coll isTimeseriesDelete) =
              (res, pd'\<lparr>request := req\<lparr>getProj := proj\<rparr>\<rparr>)"
    if rd: "getReturnDeleted req" for proj
  proof -
    have req0: "request ?pd0 = req"
      by (simp add: ParsedDelete_def)
    have ctor: "ParsedDelete ext (req\<lparr>getProj := proj\<rparr>) coll isTimeseriesDelete =
                ?pd0\<lparr>request := (request ?pd0)\<lparr>getProj := proj\<rparr>\<rparr>"
      by (simp add: ParsedDelete_def)
    from rd req0 have "getReturnDeleted (request ?pd0)"
      by simp
    from parseRequest_proj [OF this, of ext proj] show ?thesis
      by (simp only: ctor assms fst_conv snd_conv req0)
  qed
  from inputs same show ?thesis
    by blast
qed

theorem canonicalizer_input_without_projection_witness:
  "getReturnDeleted (sortedSingleRequest\<lparr>getReturnDeleted := True\<rparr>) \<and>
   canonicalizerInputs (calls (snd (parseRequest exampleExternals
     (ParsedDelete exampleExternals (sortedSingleRequest\<lparr>getReturnDeleted := True\<rparr>)
        (Some plainCollection) False)))) \<noteq> [] \<and>
   map findProjection (canonicalizerInputs (calls (snd (parseRequest exampleExternals
     (ParsedDelete exampleExternals (sortedSingleRequest\<lparr>getReturnDeleted := True\<rparr>)
        (Some plainCollection) False))))) = [[]] \<and>
   fst (parseRequest exampleExternals
     (ParsedDelete exampleExternals
        (sortedSingleRequest\<lparr>getReturnDeleted := True, getProj := [(''x'', BSONInt 1)]\<rparr>)
        (Some plainCollection) False)) =
   fst (parseRequest exampleExternals
     (ParsedDelete exampleExternals (sortedSingleRequest\<lparr>getReturnDeleted := True\<rparr>)
        (Some plainCollection) False)) \<and>
   canonicalQuery (snd (parseRequest exampleExternals
     (ParsedDelete exampleExternals
        (sortedSingleRequest\<lparr>getReturnDeleted := True, getProj := [(''x'', BSONInt 1)]\<rparr>)
        (Some plainCollection) False))) =
   canonicalQuery (snd (parseRequest exampleExternals
     (ParsedDelete exampleExternals (sortedSingleRequest\<lparr>getReturnDeleted := True\<rparr>)
        (Some plainCollection) False)))"
proof -
  let ?req = "sortedSingleRequest\<lparr>getReturnDeleted := True\<rparr>"
  let ?pd0 = "ParsedDelete exampleExternals ?req (Some plainCollection) False"
  have h: "parseRequest exampleExternals ?pd0 =
             (fst (parseRequest exampleExternals ?pd0), snd (parseRequest exampleExternals ?pd0))"
    by simp
  have rd: "getReturnDeleted ?req"
    by (simp add: example_defs)
  have ne: "canonicalizerInputs (calls (snd (parseRequest exampleExternals ?pd0))) \<noteq> []"
    and len: "length (canonicalizerInputs (calls (snd (parseRequest exampleExternals ?pd0)))) = 1"
    by (simp_all add: model_defs example_defs)
  note c10 = canonicalizer_input_without_projection [OF h]
  from c10 have "\<forall>findCommand \<in> set (canonicalizerInputs
      (calls (snd (parseRequest exampleExternals ?pd0)))). findProjection findCommand = []"
    by blast
  with len have inputs: "map findProjection (canonicalizerInputs
      (calls (snd (parseRequest exampleExternals ?pd0)))) = [[]]"
    by (cases "canonicalizerInputs (calls (snd (parseRequest exampleExternals ?pd0)))") auto
  from c10 rd have "parseRequest exampleExternals
      (ParsedDelete exampleExternals (?req\<lparr>getProj := [(''x'', BSONInt 1)]\<rparr>)
         (Some plainCollection) False) =
      (fst (parseRequest exampleExternals ?pd0),
       (snd (parseRequest exampleExternals ?pd0))
         \<lparr>request := ?req\<lparr>getProj := [(''x'', BSONInt 1)]\<rparr>\<rparr>)"
    by blast
  then have "fst (parseRequest exampleExternals
      (ParsedDelete exampleExternals (?req\<lparr>getProj := [(''x'', BSONInt 1)]\<rparr>)
         (Some plainCollection) False)) = fst (parseRequest exampleExternals ?pd0)"
    and "canonicalQuery (snd (parseRequest exampleExternals
      (ParsedDelete exampleExternals (?req\<lparr>getProj := [(''x'', BSONInt 1)]\<rparr>)
         (Some plainCollection) False))) =
      canonicalQuery (snd (parseRequest exampleExternals ?pd0))"
    by simp_all
  with rd ne inputs show ?thesis
    by simp
qed

end
